theory Spec2Isabelle
  imports Main "HOL-Library.Word"
begin

section \<open>The machine the stub runs on\<close>

text \<open>
  \<^verbatim>\<open>src/libsmbios_c/memory/memory_windows.c\<close> holds one function,
  \<^verbatim>\<open>init_mem_struct\<close>, the Windows backend of the physical-memory accessor.
  It takes a pointer to a \<^verbatim>\<open>struct memory_access_obj\<close>, calls \<^verbatim>\<open>printf\<close> and
  returns an \<^verbatim>\<open>int\<close>. The model below has what such a call can touch: the objects in
  memory, the standard output stream, and (through the record's extension field
  \<open>more\<close>) whatever else the process owns, such as operating system resources.
\<close>

text \<open>A C \<^verbatim>\<open>int\<close>: 32 bits, read as two's complement by \<open>sint\<close>.\<close>

type_synonym c_int = "32 word"

type_synonym addr = nat

text \<open>A pointer is null or holds an address; an address need not hold an object.\<close>

datatype ptr = Null | Ptr addr

text \<open>
  The declaration of \<^verbatim>\<open>struct memory_access_obj\<close> is in \<^verbatim>\<open>memory_impl.h\<close>, which is
  not among the sources: the type of the objects is the parameter \<open>'obj\<close>.
\<close>

record 'obj world =
  heap :: "addr \<rightharpoonup> 'obj"
  stdout :: string

text \<open>
  A C computation takes the world and either faults (\<open>None\<close>: undefined behaviour) or
  returns a value and the world it leaves.
\<close>

type_synonym ('a, 'w) c_prog = "'w \<Rightarrow> ('a \<times> 'w) option"

definition c_return :: "'a \<Rightarrow> ('a, 'w) c_prog" where
  "c_return x w = Some (x, w)"

definition c_seq :: "('a, 'w) c_prog \<Rightarrow> ('a \<Rightarrow> ('b, 'w) c_prog) \<Rightarrow> ('b, 'w) c_prog" where
  "c_seq p f w = (case p w of None \<Rightarrow> None | Some (x, w') \<Rightarrow> f x w')"

text \<open>
  Reading and writing through a pointer, \<^verbatim>\<open>*m\<close> and \<^verbatim>\<open>*m = v\<close>: both fault on the
  null pointer and on an address that holds no object.
\<close>

definition load_obj :: "ptr \<Rightarrow> ('obj, ('obj, 'z) world_scheme) c_prog" where
  "load_obj m w =
     (case m of
        Null \<Rightarrow> None
      | Ptr a \<Rightarrow> (case heap w a of None \<Rightarrow> None | Some v \<Rightarrow> Some (v, w)))"

definition store_obj :: "ptr \<Rightarrow> 'obj \<Rightarrow> (unit, ('obj, 'z) world_scheme) c_prog" where
  "store_obj m v w =
     (case m of
        Null \<Rightarrow> None
      | Ptr a \<Rightarrow>
          (case heap w a of
             None \<Rightarrow> None
           | Some _ \<Rightarrow> Some ((), w\<lparr>heap := (heap w)(a \<mapsto> v)\<rparr>)))"

text \<open>
  \<^verbatim>\<open>printf\<close> called with a format and no further argument. A conversion
  specification (\<^verbatim>\<open>%\<close>) would read an argument that is not there, which is undefined
  behaviour; a format without one is appended to the standard output as it is, and the
  call returns the number of characters written.
\<close>

definition c_printf :: "string \<Rightarrow> (c_int, ('obj, 'z) world_scheme) c_prog" where
  "c_printf fmt w =
     (if CHR ''%'' \<in> set fmt then None
      else Some (of_nat (length fmt), w\<lparr>stdout := stdout w @ fmt\<rparr>))"

section \<open>The Windows backend\<close>

text \<open>
  \<^verbatim>\<open>
  __internal int init_mem_struct(struct memory_access_obj *m)
  {
      printf("WINDOWS NOT IMPLEMENTED YET!!!! \n");
      return -1;
  }
  \<close>
  The value \<^verbatim>\<open>printf\<close> returns is dropped, and \<^verbatim>\<open>m\<close> is not used.
\<close>

definition init_mem_struct :: "ptr \<Rightarrow> (c_int, ('obj, 'z) world_scheme) c_prog" where
  "init_mem_struct m =
     c_seq (c_printf ''WINDOWS NOT IMPLEMENTED YET!!!! \<newline>'') (\<lambda>_. c_return (- 1))"

section \<open>A process that calls the backend\<close>

text \<open>
  During its life a process calls \<open>init_mem_struct\<close> any number of times, with any
  pointers, and between two calls it may change the world in any way. A run is a list of
  such actions; it returns the codes of the calls, in order.
\<close>

datatype ('obj, 'z) action =
  Call_init ptr
| Other_step "('obj, 'z) world_scheme \<Rightarrow> ('obj, 'z) world_scheme"

fun is_call :: "('obj, 'z) action \<Rightarrow> bool" where
  "is_call (Call_init _) = True"
| "is_call (Other_step _) = False"

fun run_process :: "('obj, 'z) action list \<Rightarrow> (c_int list, ('obj, 'z) world_scheme) c_prog" where
  "run_process [] w = Some ([], w)"
| "run_process (Call_init m # acts) w =
     (case init_mem_struct m w of
        None \<Rightarrow> None
      | Some (rc, w') \<Rightarrow>
          (case run_process acts w' of
             None \<Rightarrow> None
           | Some (rcs, w'') \<Rightarrow> Some (rc # rcs, w'')))"
| "run_process (Other_step f # acts) w = run_process acts (f w)"

section \<open>The accessor of the specification\<close>

text \<open>
  The specification describes a handle with three states and three operations on it. Of
  these only the backend initializer above is among the sources; the operations are
  modelled from the words of the specification.
\<close>

datatype hstate = Unopened | Open | Closed

datatype mem_error = Unsupported | PermissionDenied | IOError | OutOfRange | NotOpen

type_synonym byte = "8 word"

text \<open>
  Modelled from the spec: the open operation; the function that calls the backend
  initializer and makes the handle is not among the sources. ``\<open>open()\<close> transitions
  \<open>Unopened \<rightarrow> Open\<close> on success (stays \<open>Unopened\<close> on failure)'', and \<open>Closed\<close> is
  terminal. The argument \<open>rc\<close> is the code the backend initializer returned, 0 for
  success. The specification names no transition by open out of \<open>Open\<close> or \<open>Closed\<close>,
  so none is taken.
\<close>

definition mem_open :: "c_int \<Rightarrow> hstate \<Rightarrow> hstate" where
  "mem_open rc s = (if s = Unopened \<and> rc = 0 then Open else s)"

text \<open>
  Modelled from the spec: the read operation, which is not among the sources.
  ``\<open>read()\<close> is only valid in \<open>Open\<close>''; on a closed or never-opened handle it fails
  with \<open>NotOpen\<close>. What a read of an open handle returns is the platform's business:
  the parameter \<open>backend\<close>, from the address and the length.
\<close>

definition mem_read ::
  "(nat \<Rightarrow> nat \<Rightarrow> mem_error + byte list) \<Rightarrow> hstate \<Rightarrow> nat \<Rightarrow> nat \<Rightarrow> mem_error + byte list" where
  "mem_read backend s physical_address len =
     (if s = Open then backend physical_address len else Inl NotOpen)"

text \<open>
  Modelled from the spec: the close operation, which is not among the sources.
  ``\<open>close()\<close> transitions \<open>Open \<rightarrow> Closed\<close>''; ``closing an already-closed handle is
  a no-op, not an error''. The result is the outcome reported to the caller and the
  state the handle is left in.
\<close>

definition mem_close :: "hstate \<Rightarrow> (mem_error + unit) \<times> hstate" where
  "mem_close s = (Inr (), if s = Open then Closed else s)"

text \<open>
  Modelled from the spec: the state machine of a handle, one step for each operation a
  caller can apply. ``Lifecycle: created by an open operation, mutated only by the close
  operation'': a read leaves the state as it is.
\<close>

datatype event = Ev_open c_int | Ev_read nat nat | Ev_close

fun next_state :: "hstate \<Rightarrow> event \<Rightarrow> hstate" where
  "next_state s (Ev_open rc) = mem_open rc s"
| "next_state s (Ev_read physical_address len) = s"
| "next_state s Ev_close = snd (mem_close s)"

section \<open>What the stub returns\<close>

lemma c_printf_plain:
  "CHR ''%'' \<notin> set fmt \<Longrightarrow>
     c_printf fmt w = Some (of_nat (length fmt), w\<lparr>stdout := stdout w @ fmt\<rparr>)"
  by (simp add: c_printf_def)

lemma init_mem_struct_eq:
  "init_mem_struct m w =
     Some (- 1, w\<lparr>stdout := stdout w @ ''WINDOWS NOT IMPLEMENTED YET!!!! \<newline>''\<rparr>)"
  by (simp add: init_mem_struct_def c_seq_def c_return_def c_printf_plain)

text \<open>Faults are real in this model: a body that used the null pointer would not return.\<close>

lemma load_obj_Null: "load_obj Null w = None"
  by (simp add: load_obj_def)

lemma store_obj_Null: "store_obj Null v w = None"
  by (simp add: store_obj_def)

text \<open>
  Claim C1. On the stub backend the open always fails: for every pointer argument and
  every state of the world, \<open>init_mem_struct\<close> returns, the code it returns is not
  zero, and no run of it returns the success code 0.
\<close>

theorem init_mem_struct_always_fails:
  "(\<exists>rc w'. init_mem_struct m w = Some (rc, w') \<and> rc \<noteq> 0 \<and> sint rc < 0)
   \<and> (\<forall>w'. init_mem_struct m w \<noteq> Some (0, w'))"
  by (simp add: init_mem_struct_eq)

text \<open>
  Claim C10. The result of \<open>init_mem_struct\<close> does not depend on its input: two calls,
  with any two pointers in any two worlds, return the same code, and that code is the
  \<^verbatim>\<open>int\<close> \<open>-1\<close>.
\<close>

theorem init_mem_struct_constant:
  "map_option fst (init_mem_struct m1 w1) = map_option fst (init_mem_struct m2 w2)
   \<and> map_option (sint \<circ> fst) (init_mem_struct m1 w1) = Some (- 1)"
  by (simp add: init_mem_struct_eq)

text \<open>
  Claim C2. For every input the stub prints its ``not implemented'' line and returns the
  error code \<open>-1\<close>, and does nothing else: the world it leaves differs from the one it
  was given in the standard output only, which has grown by that line.
\<close>

theorem init_mem_struct_prints_and_fails:
  "\<exists>w'. init_mem_struct m w = Some (- 1, w')
     \<and> stdout w' = stdout w @ ''WINDOWS NOT IMPLEMENTED YET!!!! \<newline>''
     \<and> w'\<lparr>stdout := stdout w\<rparr> = w"
  by (simp add: init_mem_struct_eq)

text \<open>
  Claim C3, as stated, fails: the call is not free of side effects, and the world it
  leaves is never the world it was given. On the null pointer, in a world with an empty
  memory and nothing printed yet, the world after the call differs from the world before:
  its standard output holds the diagnostic line.
\<close>

theorem init_mem_struct_changes_stdout:
  "map_option snd (init_mem_struct Null \<lparr>heap = (Map.empty :: addr \<rightharpoonup> bool), stdout = []\<rparr>)
     \<noteq> Some \<lparr>heap = Map.empty, stdout = []\<rparr>
   \<and> map_option (stdout \<circ> snd)
       (init_mem_struct Null \<lparr>heap = (Map.empty :: addr \<rightharpoonup> bool), stdout = []\<rparr>)
     = Some ''WINDOWS NOT IMPLEMENTED YET!!!! \<newline>''"
  by (simp add: init_mem_struct_eq)

text \<open>
  Claim C3, amended. The failed call leaves nothing half done, and its one side effect is
  the diagnostic line. It returns a failure code at once; the objects in memory, among
  them the one the argument points to, are as they were, so no handle has been produced;
  every other resource of the process (the extension field of the world) is as it was, so
  nothing has been allocated; and the world it leaves is the world it was given with the
  diagnostic line appended to the standard output, and nothing else changed.
\<close>

theorem init_mem_struct_only_effect_is_output:
  "\<exists>rc w'. init_mem_struct m w = Some (rc, w') \<and> rc \<noteq> 0
     \<and> heap w' = heap w \<and> world.more w' = world.more w
     \<and> w' = w\<lparr>stdout := stdout w @ ''WINDOWS NOT IMPLEMENTED YET!!!! \<newline>''\<rparr>"
  by (simp add: init_mem_struct_eq)

text \<open>
  Claim C9. \<open>init_mem_struct\<close> does not use its pointer argument. It returns normally
  for every pointer, the null pointer included; it leaves every object in memory
  unchanged; and neither its result nor the world it leaves depends on the pointer or on
  what memory holds: with any other pointer \<open>m'\<close> and any other memory \<open>h\<close> (an empty
  one too, where every pointer dangles) the call returns the same code and leaves the
  same world, around \<open>h\<close> untouched.
\<close>

theorem init_mem_struct_ignores_pointer:
  "\<exists>rc w'. init_mem_struct m w = Some (rc, w')
     \<and> init_mem_struct Null w = Some (rc, w')
     \<and> heap w' = heap w
     \<and> (\<forall>m' h. init_mem_struct m' (w\<lparr>heap := h\<rparr>) = Some (rc, w'\<lparr>heap := h\<rparr>))"
  by (simp add: init_mem_struct_eq)

section \<open>The stub over the life of a process\<close>

lemma run_process_codes:
  "\<exists>w'. run_process acts w = Some (replicate (length (filter is_call acts)) (- 1), w')"
proof (induction acts arbitrary: w)
  case Nil
  show ?case by simp
next
  case (Cons act acts)
  show ?case
  proof (cases act)
    case (Call_init m)
    obtain w1 where w1: "init_mem_struct m w = Some (- 1, w1)"
      by (simp add: init_mem_struct_eq)
    from Cons.IH [of w1] obtain w2 where
      "run_process acts w1 = Some (replicate (length (filter is_call acts)) (- 1), w2)" ..
    with Call_init w1 show ?thesis by simp
  next
    case (Other_step f)
    with Cons.IH [of "f w"] show ?thesis by simp
  qed
qed

text \<open>
  Claim C4. The failure is permanent. Whatever a process does, from whatever world it
  starts, however often it calls \<open>init_mem_struct\<close> and whatever it does to the world
  between the calls, the run completes and every call, the first and each later one,
  returns the same failure code \<open>-1\<close>; the success code 0 is returned by none.
\<close>

theorem unsupported_is_permanent:
  "\<exists>rcs w'. run_process acts w = Some (rcs, w')
     \<and> rcs = replicate (length (filter is_call acts)) (- 1)
     \<and> 0 \<notin> set rcs"
  using run_process_codes [of acts w] by auto

section \<open>The handle of the specification\<close>

text \<open>
  Claim C5. A read of a handle that is closed or was never opened fails with \<open>NotOpen\<close>,
  whatever the address and the length, and whatever the platform would have returned.
\<close>

theorem mem_read_not_open:
  "s = Closed \<or> s = Unopened \<Longrightarrow> mem_read backend s physical_address len = Inl NotOpen"
  by (auto simp: mem_read_def)

theorem mem_read_not_open_witness:
  "mem_read (\<lambda>a n. Inr (replicate n 0)) Closed 983040 16 = Inl NotOpen
   \<and> mem_read (\<lambda>a n. Inr (replicate n 0)) Unopened 0 0 = Inl NotOpen"
  using mem_read_not_open [of Closed "\<lambda>a n. Inr (replicate n 0)" 983040 16]
    mem_read_not_open [of Unopened "\<lambda>a n. Inr (replicate n 0)" 0 0]
  by simp

text \<open>
  Claim C6. Close is idempotent. On every handle it reports no error; a second close,
  applied to the handle the first one left, reports the same and leaves the same handle;
  and closing a closed handle changes nothing.
\<close>

theorem mem_close_idempotent:
  "fst (mem_close s) = Inr ()
   \<and> mem_close (snd (mem_close s)) = mem_close s
   \<and> mem_close Closed = (Inr (), Closed)"
  by (cases s) (simp_all add: mem_close_def)

lemma next_state_Closed: "next_state Closed ev = Closed"
  by (cases ev) (simp_all add: mem_open_def mem_close_def)

lemma foldl_next_state_Closed: "foldl next_state Closed evs = Closed"
  by (induction evs) (simp_all add: next_state_Closed)

text \<open>
  Claim C8. The life of a handle is \<open>Unopened \<rightarrow> Open \<rightarrow> Closed\<close>. An open of an unopened
  handle leaves it open when the backend initializer returned 0 and unopened otherwise;
  with the stub \<open>init_mem_struct\<close> as the initializer it stays unopened. A read is
  answered by the platform in \<open>Open\<close> only, is refused with \<open>NotOpen\<close> in the two other
  states, and changes no state. A close takes \<open>Open\<close> to \<open>Closed\<close>. No operation, and
  no sequence of operations, leaves \<open>Closed\<close>; and every state reached from \<open>Unopened\<close>
  is one of the three.
\<close>

theorem handle_lifecycle:
  "mem_open rc Unopened = (if rc = 0 then Open else Unopened)
   \<and> (\<exists>rc' w'. init_mem_struct m w = Some (rc', w') \<and> mem_open rc' Unopened = Unopened)
   \<and> mem_read backend Open a n = backend a n
   \<and> mem_read backend Unopened a n = Inl NotOpen
   \<and> mem_read backend Closed a n = Inl NotOpen
   \<and> next_state s (Ev_read a n) = s
   \<and> next_state Open Ev_close = Closed
   \<and> next_state Closed ev = Closed
   \<and> foldl next_state Closed evs = Closed
   \<and> foldl next_state Unopened evs \<in> {Unopened, Open, Closed}"
proof -
  have "foldl next_state Unopened evs \<in> {Unopened, Open, Closed}"
    by (cases "foldl next_state Unopened evs") simp_all
  then show ?thesis
    by (simp add: mem_open_def mem_read_def mem_close_def init_mem_struct_eq
        next_state_Closed foldl_next_state_Closed)
qed

end
